theory Spec2Isabelle
  imports Complex_Main "HOL-Library.Word"
begin

section \<open>The degree-of-freedom containers of chrono\_parallel\<close>

text \<open>
  The development follows \<^verbatim>\<open>chrono_parallel/physics/Ch3DOFContainer.h\<close>: the base
  class \<^verbatim>\<open>Ch3DOFContainer\<close> and its five subclasses (fluid, MPM, FEA, rigid, FLIP).
  The header gives the data members, the virtual methods with an inline body, and
  the declarations of the methods whose bodies are compiled elsewhere.

  Types. The C++ \<^verbatim>\<open>real\<close> is read as a HOL \<open>real\<close>: rounding is not part of the
  model. \<^verbatim>\<open>uint\<close> is a \<open>32 word\<close>, \<^verbatim>\<open>short\<close> a \<open>16 word\<close>; an \<^verbatim>\<open>int\<close>
  argument is an \<open>int\<close>, and its conversion into a \<^verbatim>\<open>uint\<close> member is written out
  with \<open>word_of_int\<close>. A \<^verbatim>\<open>DynamicVector<real>\<close> is a list of reals and a pointer
  is an optional address.
\<close>

subsection \<open>Data members of the base class\<close>

type_synonym uint = "32 word"
type_synonym short = "16 word"
type_synonym real3 = "real \<times> real \<times> real"

record Ch3DOFContainer =
  kernel_radius :: real
  collision_envelope :: real
  contact_recovery_speed :: real
  contact_cohesion :: real
  contact_mu :: real
  max_velocity :: real
  start_row :: uint
  max_iterations :: int
  contact_forces :: "real list"
  gamma_old :: "real list"
  family :: "short \<times> short"
  data_manager :: "nat option"
  num_fluid_contacts :: uint
  num_fluid_bodies :: uint
  num_rigid_bodies :: uint
  num_rigid_fluid_contacts :: uint
  num_rigid_mpm_contacts :: uint
  num_unilaterals :: uint
  num_bilaterals :: uint
  num_shafts :: uint
  num_fea_tets :: uint
  num_fea_nodes :: uint

text \<open>
  The members a subclass adds live in the extension slot of the record, so a
  function on \<open>'a Ch3DOFContainer_scheme\<close> is a method that every subclass
  inherits.
\<close>

subsection \<open>The multiplier vector\<close>

text \<open>
  \<^verbatim>\<open>real* gamma\<close> holds one entry per constraint row: a single scalar for a
  bilateral row, and a block of a normal and two tangential components for a
  frictional contact. The vector is kept as the list of these entries.
\<close>

datatype multiplier = Scalar real | Friction real real real

type_synonym gamma = "multiplier list"

subsection \<open>Virtual methods with a body in the header\<close>

text \<open>
  Each of the following has the body \<^verbatim>\<open>{}\<close> in the class \<^verbatim>\<open>Ch3DOFContainer\<close>:
  the call returns with the object as it was. \<^verbatim>\<open>Project\<close> is handed the
  multiplier vector and returns it as well.
\<close>

definition Ch3DOFContainer_Update :: "real \<Rightarrow> 'a Ch3DOFContainer_scheme \<Rightarrow> 'a Ch3DOFContainer_scheme" where
  "Ch3DOFContainer_Update ChTime c = c"

definition Ch3DOFContainer_Initialize :: "'a Ch3DOFContainer_scheme \<Rightarrow> 'a Ch3DOFContainer_scheme" where
  "Ch3DOFContainer_Initialize c = c"

definition Ch3DOFContainer_ComputeInvMass :: "int \<Rightarrow> 'a Ch3DOFContainer_scheme \<Rightarrow> 'a Ch3DOFContainer_scheme" where
  "Ch3DOFContainer_ComputeInvMass offset c = c"

definition Ch3DOFContainer_ComputeMass :: "int \<Rightarrow> 'a Ch3DOFContainer_scheme \<Rightarrow> 'a Ch3DOFContainer_scheme" where
  "Ch3DOFContainer_ComputeMass offset c = c"

definition Ch3DOFContainer_GenerateSparsity :: "'a Ch3DOFContainer_scheme \<Rightarrow> 'a Ch3DOFContainer_scheme" where
  "Ch3DOFContainer_GenerateSparsity c = c"

definition Ch3DOFContainer_Build_D :: "'a Ch3DOFContainer_scheme \<Rightarrow> 'a Ch3DOFContainer_scheme" where
  "Ch3DOFContainer_Build_D c = c"

definition Ch3DOFContainer_Build_b :: "'a Ch3DOFContainer_scheme \<Rightarrow> 'a Ch3DOFContainer_scheme" where
  "Ch3DOFContainer_Build_b c = c"

definition Ch3DOFContainer_Build_E :: "'a Ch3DOFContainer_scheme \<Rightarrow> 'a Ch3DOFContainer_scheme" where
  "Ch3DOFContainer_Build_E c = c"

definition Ch3DOFContainer_PreSolve :: "'a Ch3DOFContainer_scheme \<Rightarrow> 'a Ch3DOFContainer_scheme" where
  "Ch3DOFContainer_PreSolve c = c"

definition Ch3DOFContainer_ComputeDOF :: "'a Ch3DOFContainer_scheme \<Rightarrow> 'a Ch3DOFContainer_scheme" where
  "Ch3DOFContainer_ComputeDOF c = c"

definition Ch3DOFContainer_InnerSolve :: "'a Ch3DOFContainer_scheme \<Rightarrow> 'a Ch3DOFContainer_scheme" where
  "Ch3DOFContainer_InnerSolve c = c"

definition Ch3DOFContainer_Project :: "gamma \<Rightarrow> 'a Ch3DOFContainer_scheme \<Rightarrow> gamma \<times> 'a Ch3DOFContainer_scheme" where
  "Ch3DOFContainer_Project gamma c = (gamma, c)"

definition Ch3DOFContainer_UpdateRhs :: "'a Ch3DOFContainer_scheme \<Rightarrow> 'a Ch3DOFContainer_scheme" where
  "Ch3DOFContainer_UpdateRhs c = c"

definition Ch3DOFContainer_UpdatePosition :: "real \<Rightarrow> 'a Ch3DOFContainer_scheme \<Rightarrow> 'a Ch3DOFContainer_scheme" where
  "Ch3DOFContainer_UpdatePosition ChTime c = c"

definition Ch3DOFContainer_PostSolve :: "'a Ch3DOFContainer_scheme \<Rightarrow> 'a Ch3DOFContainer_scheme" where
  "Ch3DOFContainer_PostSolve c = c"

definition Ch3DOFContainer_CalculateContactForces :: "'a Ch3DOFContainer_scheme \<Rightarrow> 'a Ch3DOFContainer_scheme" where
  "Ch3DOFContainer_CalculateContactForces c = c"

text \<open>\<^verbatim>\<open>virtual int GetNumConstraints() { return 0; }\<close> and its sibling.\<close>

definition Ch3DOFContainer_GetNumConstraints :: "'a Ch3DOFContainer_scheme \<Rightarrow> int" where
  "Ch3DOFContainer_GetNumConstraints c = 0"

definition Ch3DOFContainer_GetNumNonZeros :: "'a Ch3DOFContainer_scheme \<Rightarrow> int" where
  "Ch3DOFContainer_GetNumNonZeros c = 0"

text \<open>
  \<^verbatim>\<open>virtual real3 GetBodyContactForce(uint body_id) {}\<close>: the function is declared
  to return a \<^verbatim>\<open>real3\<close> and its body has no return statement, so control flows
  off its end and the call has no defined value. The result is an option, with
  \<open>None\<close> for "no value is returned".
\<close>

definition Ch3DOFContainer_GetBodyContactForce :: "uint \<Rightarrow> 'a Ch3DOFContainer_scheme \<Rightarrow> real3 option" where
  "Ch3DOFContainer_GetBodyContactForce body_id c = None"

definition Ch3DOFContainer_GetBodyContactTorque :: "uint \<Rightarrow> 'a Ch3DOFContainer_scheme \<Rightarrow> real3 option" where
  "Ch3DOFContainer_GetBodyContactTorque body_id c = None"

text \<open>\<^verbatim>\<open>ChMPMContainer\<close> overrides \<^verbatim>\<open>Project\<close> in the header, again with \<^verbatim>\<open>{}\<close>.\<close>

definition ChMPMContainer_Project :: "gamma \<Rightarrow> 'a Ch3DOFContainer_scheme \<Rightarrow> gamma \<times> 'a Ch3DOFContainer_scheme" where
  "ChMPMContainer_Project gamma c = (gamma, c)"

subsection \<open>Virtual dispatch\<close>

text \<open>The dynamic type of a container object.\<close>

datatype kind = Base | Fluid | MPM | FEA | Rigid | FLIP

text \<open>The virtual \<^verbatim>\<open>void\<close> methods, each with its scalar argument.\<close>

datatype lifecycle =
    Update real
  | Setup int
  | Initialize
  | ComputeInvMass int
  | ComputeMass int
  | GenerateSparsity
  | Build_D
  | Build_b
  | Build_E
  | PreSolve
  | ComputeDOF
  | InnerSolve
  | Project
  | UpdateRhs
  | UpdatePosition real
  | PostSolve
  | CalculateContactForces

text \<open>
  \<open>overrides k m\<close>: the class of kind \<open>k\<close> declares the method \<open>m\<close> itself. The
  table is read off the five subclass declarations: the fluid, FEA and rigid
  containers leave \<^verbatim>\<open>ComputeDOF\<close>, \<^verbatim>\<open>InnerSolve\<close> and \<^verbatim>\<open>UpdateRhs\<close> to the base
  class, the MPM and FLIP containers leave \<^verbatim>\<open>InnerSolve\<close> and
  \<^verbatim>\<open>CalculateContactForces\<close>, and the FEA container leaves
  \<^verbatim>\<open>CalculateContactForces\<close> as well.
\<close>

fun overrides :: "kind \<Rightarrow> lifecycle \<Rightarrow> bool" where
  "overrides Base m = False"
| "overrides Fluid ComputeDOF = False"
| "overrides Fluid InnerSolve = False"
| "overrides Fluid UpdateRhs = False"
| "overrides Fluid m = True"
| "overrides MPM InnerSolve = False"
| "overrides MPM CalculateContactForces = False"
| "overrides MPM m = True"
| "overrides FEA ComputeDOF = False"
| "overrides FEA InnerSolve = False"
| "overrides FEA UpdateRhs = False"
| "overrides FEA CalculateContactForces = False"
| "overrides FEA m = True"
| "overrides Rigid ComputeDOF = False"
| "overrides Rigid InnerSolve = False"
| "overrides Rigid UpdateRhs = False"
| "overrides Rigid m = True"
| "overrides FLIP InnerSolve = False"
| "overrides FLIP CalculateContactForces = False"
| "overrides FLIP m = True"

text \<open>
  The body the base class gives a method. \<^verbatim>\<open>Setup\<close> is only declared in the class
  (\<^verbatim>\<open>virtual void Setup(int start_constraint);\<close>), so it has no entry here.
\<close>

fun Ch3DOFContainer_body ::
  "lifecycle \<Rightarrow> (gamma \<times> 'a Ch3DOFContainer_scheme \<Rightarrow> gamma \<times> 'a Ch3DOFContainer_scheme) option" where
  "Ch3DOFContainer_body (Update ChTime) = Some (\<lambda>(g, c). (g, Ch3DOFContainer_Update ChTime c))"
| "Ch3DOFContainer_body (Setup start_constraint) = None"
| "Ch3DOFContainer_body Initialize = Some (\<lambda>(g, c). (g, Ch3DOFContainer_Initialize c))"
| "Ch3DOFContainer_body (ComputeInvMass offset) = Some (\<lambda>(g, c). (g, Ch3DOFContainer_ComputeInvMass offset c))"
| "Ch3DOFContainer_body (ComputeMass offset) = Some (\<lambda>(g, c). (g, Ch3DOFContainer_ComputeMass offset c))"
| "Ch3DOFContainer_body GenerateSparsity = Some (\<lambda>(g, c). (g, Ch3DOFContainer_GenerateSparsity c))"
| "Ch3DOFContainer_body Build_D = Some (\<lambda>(g, c). (g, Ch3DOFContainer_Build_D c))"
| "Ch3DOFContainer_body Build_b = Some (\<lambda>(g, c). (g, Ch3DOFContainer_Build_b c))"
| "Ch3DOFContainer_body Build_E = Some (\<lambda>(g, c). (g, Ch3DOFContainer_Build_E c))"
| "Ch3DOFContainer_body PreSolve = Some (\<lambda>(g, c). (g, Ch3DOFContainer_PreSolve c))"
| "Ch3DOFContainer_body ComputeDOF = Some (\<lambda>(g, c). (g, Ch3DOFContainer_ComputeDOF c))"
| "Ch3DOFContainer_body InnerSolve = Some (\<lambda>(g, c). (g, Ch3DOFContainer_InnerSolve c))"
| "Ch3DOFContainer_body Project = Some (\<lambda>(g, c). Ch3DOFContainer_Project g c)"
| "Ch3DOFContainer_body UpdateRhs = Some (\<lambda>(g, c). (g, Ch3DOFContainer_UpdateRhs c))"
| "Ch3DOFContainer_body (UpdatePosition ChTime) = Some (\<lambda>(g, c). (g, Ch3DOFContainer_UpdatePosition ChTime c))"
| "Ch3DOFContainer_body PostSolve = Some (\<lambda>(g, c). (g, Ch3DOFContainer_PostSolve c))"
| "Ch3DOFContainer_body CalculateContactForces = Some (\<lambda>(g, c). (g, Ch3DOFContainer_CalculateContactForces c))"

text \<open>
  A virtual call \<^verbatim>\<open>p->m(...)\<close> on an object of kind \<open>k\<close>. The bodies that are
  compiled outside the header are the parameter \<open>ext\<close>: the call runs the
  subclass's own body when the subclass declares the method, and the inherited
  one otherwise. The one override with a body in the header is
  \<^verbatim>\<open>ChMPMContainer::Project\<close>.
\<close>

definition call ::
  "(kind \<Rightarrow> lifecycle \<Rightarrow> gamma \<times> 'a Ch3DOFContainer_scheme \<Rightarrow> gamma \<times> 'a Ch3DOFContainer_scheme) \<Rightarrow>
   kind \<Rightarrow> lifecycle \<Rightarrow> gamma \<times> 'a Ch3DOFContainer_scheme \<Rightarrow> gamma \<times> 'a Ch3DOFContainer_scheme" where
  "call ext k m s =
     (if k = MPM \<and> m = Project then ChMPMContainer_Project (fst s) (snd s)
      else if overrides k m then ext k m s
      else (case Ch3DOFContainer_body m of
              Some body \<Rightarrow> body s
            | None \<Rightarrow> ext Base m s))"

text \<open>
  The two contact queries. The fluid and the rigid container declare their own
  (bodies outside the header, the parameters \<open>force\<close> and \<open>torque\<close>); every other
  kind inherits the base-class function.
\<close>

fun overrides_query :: "kind \<Rightarrow> bool" where
  "overrides_query Fluid = True"
| "overrides_query Rigid = True"
| "overrides_query k = False"

definition call_GetBodyContactForce ::
  "(kind \<Rightarrow> uint \<Rightarrow> 'a Ch3DOFContainer_scheme \<Rightarrow> real3) \<Rightarrow>
   kind \<Rightarrow> uint \<Rightarrow> 'a Ch3DOFContainer_scheme \<Rightarrow> real3 option" where
  "call_GetBodyContactForce force k body_id c =
     (if overrides_query k then Some (force k body_id c)
      else Ch3DOFContainer_GetBodyContactForce body_id c)"

definition call_GetBodyContactTorque ::
  "(kind \<Rightarrow> uint \<Rightarrow> 'a Ch3DOFContainer_scheme \<Rightarrow> real3) \<Rightarrow>
   kind \<Rightarrow> uint \<Rightarrow> 'a Ch3DOFContainer_scheme \<Rightarrow> real3 option" where
  "call_GetBodyContactTorque torque k body_id c =
     (if overrides_query k then Some (torque k body_id c)
      else Ch3DOFContainer_GetBodyContactTorque body_id c)"

subsection \<open>Configuration\<close>

text \<open>
  \<^verbatim>\<open>contact_mu\<close> and \<^verbatim>\<open>contact_recovery_speed\<close> are public data members, and the
  class declares neither a setter nor a check for them: a client configures a
  container by assigning to the members, which stores any value as it is.
\<close>

definition configure :: "real \<Rightarrow> real \<Rightarrow> 'a Ch3DOFContainer_scheme \<Rightarrow> 'a Ch3DOFContainer_scheme" where
  "configure mu speed c = c\<lparr>contact_mu := mu, contact_recovery_speed := speed\<rparr>"

text \<open>
  Modelled from the spec: the header has no notion of a valid configuration.
  Section 7: a configuration error is a "friction coefficient outside [0,1]" or
  a "negative recovery speed".
\<close>

definition valid_configuration :: "'a Ch3DOFContainer_scheme \<Rightarrow> bool" where
  "valid_configuration c = (0 \<le> contact_mu c \<and> contact_mu c \<le> 1 \<and> 0 \<le> contact_recovery_speed c)"

subsection \<open>The friction cone\<close>

text \<open>
  Modelled from the spec: the header does not say which multipliers are
  feasible. Section 4.2: "a Coulomb cone with friction coefficient and a
  cohesion offset that shifts the cone apex to allow a bounded tensile force
  before separation". The normal component may be tensile up to the cohesion,
  and the tangential part is bounded by the friction coefficient times the
  shifted normal component. A bilateral entry is not coned.
\<close>

fun feasible :: "real \<Rightarrow> real \<Rightarrow> multiplier \<Rightarrow> bool" where
  "feasible mu coh (Scalar x) = True"
| "feasible mu coh (Friction n u v) = (0 \<le> n + coh \<and> sqrt (u\<^sup>2 + v\<^sup>2) \<le> mu * (n + coh))"

text \<open>
  Modelled from the spec: the bodies of \<^verbatim>\<open>Project\<close> of the fluid, FEA, rigid and
  FLIP containers are declared in the header and compiled elsewhere. Sections 4.1
  and 4.2 give the contract: the cohesion is added to the normal component
  (the apex shift); a block that is still negative is zeroed; otherwise the
  tangential part is clamped to the cone of the friction coefficient and the
  cohesion is subtracted again. A bilateral entry is left alone. The friction
  coefficient and the cohesion are the base-class members \<^verbatim>\<open>contact_mu\<close> and
  \<^verbatim>\<open>contact_cohesion\<close>.
\<close>

fun Cone :: "real \<Rightarrow> real \<Rightarrow> multiplier \<Rightarrow> multiplier" where
  "Cone mu coh (Scalar x) = Scalar x"
| "Cone mu coh (Friction n u v) =
     (let gn = n + coh; t = sqrt (u\<^sup>2 + v\<^sup>2) in
      if gn < 0 then Friction 0 0 0
      else if t \<le> mu * gn then Friction (gn - coh) u v
      else Friction (gn - coh) (u * (mu * gn / t)) (v * (mu * gn / t)))"

text \<open>
  Modelled from the spec: \<^verbatim>\<open>Project\<close> as the four containers would define it,
  the cone operator on every entry of the vector, "in place": the vector keeps
  its length and the object its members.
\<close>

definition Project_spec :: "gamma \<Rightarrow> 'a Ch3DOFContainer_scheme \<Rightarrow> gamma \<times> 'a Ch3DOFContainer_scheme" where
  "Project_spec gamma c = (map (Cone (contact_mu c) (contact_cohesion c)) gamma, c)"

text \<open>
  \<^verbatim>\<open>p->Project(gamma)\<close> on a container of kind \<open>k\<close>: the header's bodies for the
  base class and the MPM container, the contract above for the other four.
\<close>

definition call_Project :: "kind \<Rightarrow> gamma \<Rightarrow> 'a Ch3DOFContainer_scheme \<Rightarrow> gamma \<times> 'a Ch3DOFContainer_scheme" where
  "call_Project k gamma c = call (\<lambda>k' m s. Project_spec (fst s) (snd s)) k Project (gamma, c)"

subsection \<open>Row offsets\<close>

text \<open>
  Modelled from the spec: the class \<^verbatim>\<open>ChParallelDataManager\<close> is only forward
  declared. It is the "external data manager" of section 2, of which the model
  keeps the counts of the current step that a container copies.
\<close>

record counts =
  cnt_fluid_contacts :: uint
  cnt_fluid_bodies :: uint
  cnt_rigid_bodies :: uint
  cnt_rigid_fluid_contacts :: uint
  cnt_rigid_mpm_contacts :: uint
  cnt_unilaterals :: uint
  cnt_bilaterals :: uint
  cnt_shafts :: uint
  cnt_fea_tets :: uint
  cnt_fea_nodes :: uint

text \<open>
  Modelled from the spec: \<^verbatim>\<open>Ch3DOFContainer::Setup\<close> is declared in the header and
  defined elsewhere. Section 4.1: it "records the container's starting row index
  and recomputes internal counts". The argument is an \<^verbatim>\<open>int\<close> and the member
  \<^verbatim>\<open>start_row\<close> a \<^verbatim>\<open>uint\<close>, so the assignment converts modulo \<open>2 ^ 32\<close>.
\<close>

definition Ch3DOFContainer_Setup :: "counts \<Rightarrow> int \<Rightarrow> 'a Ch3DOFContainer_scheme \<Rightarrow> 'a Ch3DOFContainer_scheme" where
  "Ch3DOFContainer_Setup dm start_constraint c =
     c\<lparr> start_row := word_of_int start_constraint,
        num_fluid_contacts := cnt_fluid_contacts dm,
        num_fluid_bodies := cnt_fluid_bodies dm,
        num_rigid_bodies := cnt_rigid_bodies dm,
        num_rigid_fluid_contacts := cnt_rigid_fluid_contacts dm,
        num_rigid_mpm_contacts := cnt_rigid_mpm_contacts dm,
        num_unilaterals := cnt_unilaterals dm,
        num_bilaterals := cnt_bilaterals dm,
        num_shafts := cnt_shafts dm,
        num_fea_tets := cnt_fea_tets dm,
        num_fea_nodes := cnt_fea_nodes dm \<rparr>"

text \<open>
  \<^verbatim>\<open>p->GetNumConstraints()\<close>: every subclass declares its own (bodies outside the
  header, the parameter \<open>ncons\<close>); the base class returns 0.
\<close>

definition call_GetNumConstraints ::
  "(kind \<Rightarrow> 'a Ch3DOFContainer_scheme \<Rightarrow> int) \<Rightarrow> kind \<Rightarrow> 'a Ch3DOFContainer_scheme \<Rightarrow> int" where
  "call_GetNumConstraints ncons k c =
     (if k = Base then Ch3DOFContainer_GetNumConstraints c else ncons k c)"

text \<open>
  Modelled from the spec: the pass of the outer solver over the active
  containers is not in the source. Section 3: "row ranges are assigned by a
  sequential prefix sum over all active containers at Setup time". Each
  container is set up at the running offset, which then advances by the
  container's \<^verbatim>\<open>GetNumConstraints()\<close>. The result is the containers after
  \<^verbatim>\<open>Setup\<close> and the final offset, the row count of the assembled system.
\<close>

fun assign_rows ::
  "(kind \<Rightarrow> 'a Ch3DOFContainer_scheme \<Rightarrow> int) \<Rightarrow> counts \<Rightarrow> int \<Rightarrow>
   (kind \<times> 'a Ch3DOFContainer_scheme) list \<Rightarrow> (kind \<times> 'a Ch3DOFContainer_scheme) list \<times> int" where
  "assign_rows ncons dm start [] = ([], start)"
| "assign_rows ncons dm start ((k, c) # cs) =
     (let c' = Ch3DOFContainer_Setup dm start c;
          rest = assign_rows ncons dm (start + call_GetNumConstraints ncons k c') cs
      in ((k, c') # fst rest, snd rest))"

text \<open>
  Modelled from the spec: the row range of a container, section 3: "a
  \<open>(start_row, count)\<close> range owned by exactly one container", that is the rows
  from \<^verbatim>\<open>start_row\<close> up to \<^verbatim>\<open>start_row + GetNumConstraints()\<close>, the latter excluded.
\<close>

definition row_range :: "(kind \<Rightarrow> 'a Ch3DOFContainer_scheme \<Rightarrow> int) \<Rightarrow> kind \<times> 'a Ch3DOFContainer_scheme \<Rightarrow> nat set" where
  "row_range ncons kc =
     {unat (start_row (snd kc)) ..< unat (start_row (snd kc)) + nat (call_GetNumConstraints ncons (fst kc) (snd kc))}"

text \<open>The constraint count of an entry of the container list.\<close>

abbreviation num_constraints ::
  "(kind \<Rightarrow> 'a Ch3DOFContainer_scheme \<Rightarrow> int) \<Rightarrow> kind \<times> 'a Ch3DOFContainer_scheme \<Rightarrow> int" where
  "num_constraints ncons kc \<equiv> call_GetNumConstraints ncons (fst kc) (snd kc)"

subsection \<open>Mass and inverse mass\<close>

text \<open>
  The bodies of \<^verbatim>\<open>ComputeMass\<close> and \<^verbatim>\<open>ComputeInvMass\<close> of the subclasses are not
  in the source. Section 4.1 of the specification: they "fill diagonal
  mass/inverse-mass blocks at a given global offset". A node has three degrees
  of freedom, so its block is three consecutive diagonal entries that hold the
  node's mass, respectively its reciprocal. The diagonal of the global matrix
  is a map from the row index to the entry.
\<close>

type_synonym diagonal = "int \<rightharpoonup> real"

text \<open>
  Modelled from the spec: the loop over the nodes that both functions share,
  one block of three entries per node, the next block three rows further.
\<close>

fun fill_blocks :: "int \<Rightarrow> real list \<Rightarrow> diagonal \<Rightarrow> diagonal" where
  "fill_blocks offset [] M = M"
| "fill_blocks offset (m # ms) M =
     fill_blocks (offset + 3) ms (M(offset \<mapsto> m, offset + 1 \<mapsto> m, offset + 2 \<mapsto> m))"

text \<open>Modelled from the spec: \<^verbatim>\<open>ComputeMass(offset)\<close>, the blocks hold the node masses.\<close>

definition ComputeMass_spec :: "int \<Rightarrow> real list \<Rightarrow> diagonal \<Rightarrow> diagonal" where
  "ComputeMass_spec offset masses M = fill_blocks offset masses M"

text \<open>Modelled from the spec: \<^verbatim>\<open>ComputeInvMass(offset)\<close>, the blocks hold the reciprocals.\<close>

definition ComputeInvMass_spec :: "int \<Rightarrow> real list \<Rightarrow> diagonal \<Rightarrow> diagonal" where
  "ComputeInvMass_spec offset masses M_inv = fill_blocks offset (map (\<lambda>m. 1 / m) masses) M_inv"

subsection \<open>Sample objects\<close>

text \<open>A container object and a multiplier vector on which the results below are evaluated.\<close>

definition sample_container :: Ch3DOFContainer where
  "sample_container =
     \<lparr> kernel_radius = 1 / 10, collision_envelope = 0, contact_recovery_speed = 1,
       contact_cohesion = 0, contact_mu = 1 / 2, max_velocity = 20, start_row = 0,
       max_iterations = 10, contact_forces = [], gamma_old = [],
       family = (1, 0), data_manager = None,
       num_fluid_contacts = 0, num_fluid_bodies = 2, num_rigid_bodies = 1,
       num_rigid_fluid_contacts = 1, num_rigid_mpm_contacts = 0, num_unilaterals = 0,
       num_bilaterals = 0, num_shafts = 0, num_fea_tets = 0, num_fea_nodes = 0 \<rparr>"

definition sample_gamma :: gamma where
  "sample_gamma = [Friction 1 3 4, Scalar 2]"

text \<open>A multiplier vector inside the cone of friction \<open>1 / 2\<close> without cohesion.\<close>

definition sample_feasible_gamma :: gamma where
  "sample_feasible_gamma = [Friction 20 3 4, Scalar (- 2)]"

definition sample_counts :: counts where
  "sample_counts =
     \<lparr> cnt_fluid_contacts = 0, cnt_fluid_bodies = 2, cnt_rigid_bodies = 1,
       cnt_rigid_fluid_contacts = 1, cnt_rigid_mpm_contacts = 0, cnt_unilaterals = 0,
       cnt_bilaterals = 0, cnt_shafts = 0, cnt_fea_tets = 0, cnt_fea_nodes = 0 \<rparr>"

text \<open>Constraint counts for the subclasses: three rows per fluid body, one per rigid-fluid contact.\<close>

definition sample_ncons :: "kind \<Rightarrow> Ch3DOFContainer \<Rightarrow> int" where
  "sample_ncons k c = (if k = Fluid then 3 * uint (num_fluid_bodies c) else uint (num_rigid_fluid_contacts c))"

text \<open>An out-of-line body that visibly changes both the vector and the object.\<close>

definition sample_ext ::
  "kind \<Rightarrow> lifecycle \<Rightarrow> gamma \<times> Ch3DOFContainer \<Rightarrow> gamma \<times> Ch3DOFContainer" where
  "sample_ext k m s = ([], (snd s)\<lparr>start_row := 7\<rparr>)"

section \<open>Auxiliary facts\<close>

subsection \<open>The cone operator\<close>



lemma Cone_fixes_feasible: "feasible mu coh x \<Longrightarrow> Cone mu coh x = x"
  by (cases x) (simp_all add: Let_def)



lemma call_Project_header: "k = Base \<or> k = MPM \<Longrightarrow> call_Project k gamma c = (gamma, c)"
  by (auto simp: call_Project_def call_def ChMPMContainer_Project_def Ch3DOFContainer_Project_def)

lemma call_Project_spec:
  "k \<noteq> Base \<Longrightarrow> k \<noteq> MPM \<Longrightarrow> call_Project k gamma c = Project_spec gamma c"
  by (cases k) (simp_all add: call_Project_def call_def)

lemma map_Cone_fixes: "list_all (feasible mu coh) gamma \<Longrightarrow> map (Cone mu coh) gamma = gamma"
  by (induction gamma) (simp_all add: Cone_fixes_feasible)

subsection \<open>The prefix sum of the row offsets\<close>

lemma assign_rows_length: "length (fst (assign_rows ncons dm s cs)) = length cs"
  by (induction ncons dm s cs rule: assign_rows.induct) (simp_all add: Let_def)

lemma assign_rows_total:
  "snd (assign_rows ncons dm s cs) = s + sum_list (map (num_constraints ncons) (fst (assign_rows ncons dm s cs)))"
  by (induction ncons dm s cs rule: assign_rows.induct) (simp_all add: Let_def)

lemma start_row_Setup: "start_row (Ch3DOFContainer_Setup dm s c) = word_of_int s"
  by (simp add: Ch3DOFContainer_Setup_def)

lemma assign_rows_start:
  "i < length cs \<Longrightarrow>
   start_row (snd (fst (assign_rows ncons dm s cs) ! i)) =
     word_of_int (s + sum_list (map (num_constraints ncons) (take i (fst (assign_rows ncons dm s cs)))))"
proof (induction ncons dm s cs arbitrary: i rule: assign_rows.induct)
  case (1 ncons dm start)
  then show ?case by simp
next
  case (2 ncons dm start k c cs)
  show ?case
  proof (cases i)
    case 0
    then show ?thesis
      by (simp add: Let_def start_row_Setup)
  next
    case (Suc j)
    with "2.prems" have "j < length cs"
      by simp
    from "2.IH" [OF refl this] Suc show ?thesis
      by (simp add: Let_def add.assoc)
  qed
qed

lemma sum_list_take_Suc:
  fixes xs :: "int list"
  shows "i < length xs \<Longrightarrow> sum_list (take (Suc i) xs) = sum_list (take i xs) + xs ! i"
  by (simp add: take_Suc_conv_app_nth)

lemma sum_list_take_mono:
  fixes xs :: "int list"
  assumes "list_all (\<lambda>x. 0 \<le> x) xs" and "i \<le> j"
  shows "sum_list (take i xs) \<le> sum_list (take j xs)"
proof -
  from assms(2) have "take j xs = take i xs @ take (j - i) (drop i xs)"
    by (metis le_add_diff_inverse take_add)
  moreover have "0 \<le> sum_list (take (j - i) (drop i xs))"
    using assms(1) by (intro sum_list_nonneg) (auto simp: list_all_iff dest: in_set_takeD in_set_dropD)
  ultimately show ?thesis
    by simp
qed

lemma sum_list_take_le:
  fixes xs :: "int list"
  assumes "list_all (\<lambda>x. 0 \<le> x) xs"
  shows "sum_list (take i xs) \<le> sum_list xs"
  using sum_list_take_mono [OF assms, of i "max i (length xs)"] by simp

lemma sum_list_take_nonneg:
  fixes xs :: "int list"
  assumes "list_all (\<lambda>x. 0 \<le> x) xs"
  shows "0 \<le> sum_list (take i xs)"
  using sum_list_take_mono [OF assms, of 0 i] by simp

lemma find_block:
  fixes xs :: "int list"
  assumes "list_all (\<lambda>x. 0 \<le> x) xs" and "0 \<le> x" and "x < sum_list xs"
  shows "\<exists>i < length xs. sum_list (take i xs) \<le> x \<and> x < sum_list (take i xs) + xs ! i"
  using assms
proof (induction xs arbitrary: x)
  case Nil
  then show ?case by simp
next
  case (Cons a xs)
  show ?case
  proof (cases "x < a")
    case True
    with Cons.prems show ?thesis
      by (intro exI [of _ 0]) simp
  next
    case False
    with Cons.prems have "list_all (\<lambda>x. 0 \<le> x) xs" "0 \<le> x - a" "x - a < sum_list xs"
      by simp_all
    from Cons.IH [OF this] obtain i where "i < length xs"
      "sum_list (take i xs) \<le> x - a" "x - a < sum_list (take i xs) + xs ! i"
      by blast
    then show ?thesis
      by (intro exI [of _ "Suc i"]) simp
  qed
qed


lemma unat_word_of_int_small:
  assumes "0 \<le> x" and "x < 2 ^ 31"
  shows "unat (word_of_int x :: 32 word) = nat x"
proof -
  from assms have "x mod 2 ^ 32 = x"
    by simp
  then show ?thesis
    by (simp add: unat_eq_nat_uint uint_word_of_int)
qed

lemma row_range_assign_rows:
  assumes run: "assign_rows ncons dm 0 cs = (R, nrows)"
    and nonneg: "list_all (\<lambda>kc. 0 \<le> num_constraints ncons kc) R"
    and fits: "nrows < 2 ^ 31"
    and i: "i < length R"
  shows "row_range ncons (R ! i) =
           {nat (sum_list (take i (map (num_constraints ncons) R))) ..< nat (sum_list (take (Suc i) (map (num_constraints ncons) R)))}"
proof -
  let ?xs = "map (num_constraints ncons) R"
  from nonneg have nn: "list_all (\<lambda>x. 0 \<le> x) ?xs"
    by (simp add: list_all_iff)
  from run have R: "R = fst (assign_rows ncons dm 0 cs)" and nrows: "nrows = snd (assign_rows ncons dm 0 cs)"
    by simp_all
  from R have len: "length R = length cs"
    by (simp add: assign_rows_length)
  from nrows R have tot: "nrows = sum_list ?xs"
    by (simp add: assign_rows_total)
  have lo: "0 \<le> sum_list (take i ?xs)"
    using nn by (rule sum_list_take_nonneg)
  have "sum_list (take i ?xs) \<le> sum_list ?xs"
    using nn by (rule sum_list_take_le)
  with tot fits have hi: "sum_list (take i ?xs) < 2 ^ 31"
    by simp
  from i len have "start_row (snd (R ! i)) = word_of_int (sum_list (map (num_constraints ncons) (take i R)))"
    unfolding R using assign_rows_start [of i cs ncons dm 0] by simp
  then have "unat (start_row (snd (R ! i))) = nat (sum_list (take i ?xs))"
    using lo hi by (simp add: take_map unat_word_of_int_small)
  moreover from i have "sum_list (take (Suc i) ?xs) = sum_list (take i ?xs) + num_constraints ncons (R ! i)"
    by (simp add: sum_list_take_Suc)
  moreover from nonneg i have "0 \<le> num_constraints ncons (R ! i)"
    by (simp add: list_all_length)
  ultimately show ?thesis
    using lo by (simp add: row_range_def nat_add_distrib)
qed


subsection \<open>Diagonal blocks\<close>

lemma fill_blocks_below: "key < offset \<Longrightarrow> fill_blocks offset ms M key = M key"
  by (induction ms arbitrary: offset M) simp_all

lemma fill_blocks_at:
  "i < length ms \<Longrightarrow> 0 \<le> k \<Longrightarrow> k < 3 \<Longrightarrow> fill_blocks offset ms M (offset + 3 * int i + k) = Some (ms ! i)"
proof (induction ms arbitrary: offset M i)
  case Nil
  then show ?case by simp
next
  case (Cons m ms)
  show ?case
  proof (cases i)
    case 0
    from Cons.prems have "k = 0 \<or> k = 1 \<or> k = 2"
      by arith
    with 0 Cons.prems show ?thesis
      by (auto simp: fill_blocks_below)
  next
    case (Suc j)
    with Cons.prems have "j < length ms"
      by simp
    from Cons.IH [OF this Cons.prems(2,3), of "offset + 3"] Suc show ?thesis
      by (simp add: algebra_simps)
  qed
qed


section \<open>Results\<close>

subsection \<open>Row ranges\<close>

text \<open>
  C1. After the pass of the outer solver has called \<^verbatim>\<open>Setup\<close> on every active
  container, with the offsets of a sequential prefix sum that starts at row 0,
  the row ranges \<open>[start_row, start_row + GetNumConstraints())\<close> of two distinct
  containers are disjoint, the row count of the assembled system is the sum of
  the containers' \<^verbatim>\<open>GetNumConstraints()\<close>, and every row below that count
  belongs to a container. The preconditions are those of section 4.1 of the
  specification: no container reports a negative count, and the row count fits
  the \<^verbatim>\<open>int\<close> that \<^verbatim>\<open>Setup\<close> is handed.
\<close>

theorem row_ranges_partition:
  assumes run: "assign_rows ncons dm 0 cs = (R, nrows)"
    and nonneg: "list_all (\<lambda>kc. 0 \<le> call_GetNumConstraints ncons (fst kc) (snd kc)) R"
    and fits: "nrows < 2 ^ 31"
  shows "(\<forall>i j. i < length R \<and> j < length R \<and> i \<noteq> j \<longrightarrow> row_range ncons (R ! i) \<inter> row_range ncons (R ! j) = {})
         \<and> nrows = sum_list (map (\<lambda>kc. call_GetNumConstraints ncons (fst kc) (snd kc)) R)
         \<and> (\<Union>i<length R. row_range ncons (R ! i)) = {0 ..< nat nrows}"
proof -
  let ?xs = "map (num_constraints ncons) R"
  let ?o = "\<lambda>i. nat (sum_list (take i ?xs))"
  from nonneg have nn: "list_all (\<lambda>x. 0 \<le> x) ?xs"
    by (simp add: list_all_iff)
  have range: "row_range ncons (R ! i) = {?o i ..< ?o (Suc i)}" if "i < length R" for i
    using run nonneg fits that by (rule row_range_assign_rows)
  have mono: "?o i \<le> ?o j" if "i \<le> j" for i j
    using sum_list_take_mono [OF nn that] by simp
  from run have tot: "nrows = sum_list ?xs"
    using assign_rows_total [of ncons dm 0 cs] by simp
  have disj: "row_range ncons (R ! i) \<inter> row_range ncons (R ! j) = {}"
    if "i < j" "j < length R" for i j
  proof -
    from that have "?o (Suc i) \<le> ?o j"
      by (intro mono) simp
    with that show ?thesis
      by (auto simp: range)
  qed
  have part1: "\<forall>i j. i < length R \<and> j < length R \<and> i \<noteq> j \<longrightarrow> row_range ncons (R ! i) \<inter> row_range ncons (R ! j) = {}"
  proof (intro allI impI)
    fix i j
    assume h: "i < length R \<and> j < length R \<and> i \<noteq> j"
    then consider "i < j" | "j < i"
      by linarith
    then show "row_range ncons (R ! i) \<inter> row_range ncons (R ! j) = {}"
    proof cases
      case 1
      with h show ?thesis by (simp add: disj)
    next
      case 2
      with h have "row_range ncons (R ! j) \<inter> row_range ncons (R ! i) = {}"
        by (simp add: disj)
      then show ?thesis by blast
    qed
  qed
  have part3: "(\<Union>i<length R. row_range ncons (R ! i)) = {0 ..< nat nrows}"
  proof (intro equalityI subsetI)
    fix x
    assume "x \<in> (\<Union>i<length R. row_range ncons (R ! i))"
    then obtain i where i: "i < length R" and x: "x \<in> row_range ncons (R ! i)"
      by blast
    from x i have "x < ?o (Suc i)"
      by (simp add: range)
    also have "?o (Suc i) \<le> nat (sum_list ?xs)"
      using sum_list_take_le [OF nn, of "Suc i"] by simp
    finally show "x \<in> {0 ..< nat nrows}"
      by (simp add: tot)
  next
    fix x
    assume "x \<in> {0 ..< nat nrows}"
    then have "0 \<le> int x" "int x < sum_list ?xs"
      by (simp_all add: tot)
    from find_block [OF nn this] obtain i where i: "i < length R"
      and lo: "sum_list (take i ?xs) \<le> int x" and hi: "int x < sum_list (take i ?xs) + ?xs ! i"
      by auto
    from i have "sum_list (take (Suc i) ?xs) = sum_list (take i ?xs) + ?xs ! i"
      by (simp add: sum_list_take_Suc)
    with lo hi have "?o i \<le> x" "x < ?o (Suc i)"
      by simp_all
    with i have "x \<in> row_range ncons (R ! i)"
      by (simp add: range)
    with i show "x \<in> (\<Union>i<length R. row_range ncons (R ! i))"
      by blast
  qed
  from part1 tot part3 show ?thesis
    by simp
qed

theorem row_ranges_partition_witness:
  "assign_rows sample_ncons sample_counts 0 [(Fluid, sample_container), (Base, sample_container), (Rigid, sample_container)]
     = ([(Fluid, Ch3DOFContainer_Setup sample_counts 0 sample_container),
         (Base, Ch3DOFContainer_Setup sample_counts 6 sample_container),
         (Rigid, Ch3DOFContainer_Setup sample_counts 6 sample_container)], 7)
   \<and> row_range sample_ncons (Fluid, Ch3DOFContainer_Setup sample_counts 0 sample_container) = {0 ..< 6}
   \<and> row_range sample_ncons (Base, Ch3DOFContainer_Setup sample_counts 6 sample_container) = {}
   \<and> row_range sample_ncons (Rigid, Ch3DOFContainer_Setup sample_counts 6 sample_container) = {6 ..< 7}
   \<and> row_range sample_ncons (Fluid, Ch3DOFContainer_Setup sample_counts 0 sample_container)
       \<inter> row_range sample_ncons (Rigid, Ch3DOFContainer_Setup sample_counts 6 sample_container) = {}"
proof -
  let ?R = "[(Fluid, Ch3DOFContainer_Setup sample_counts 0 sample_container),
         (Base, Ch3DOFContainer_Setup sample_counts 6 sample_container),
         (Rigid, Ch3DOFContainer_Setup sample_counts 6 sample_container)]"
  have nf: "num_fluid_bodies (Ch3DOFContainer_Setup sample_counts s sample_container) = 2"
    and nr: "num_rigid_fluid_contacts (Ch3DOFContainer_Setup sample_counts s sample_container) = 1" for s
    by (simp_all add: Ch3DOFContainer_Setup_def sample_counts_def)
  have run: "assign_rows sample_ncons sample_counts 0
      [(Fluid, sample_container), (Base, sample_container), (Rigid, sample_container)] = (?R, 7)"
    by (simp add: Let_def call_GetNumConstraints_def sample_ncons_def nf nr
        Ch3DOFContainer_GetNumConstraints_def)
  have nonneg: "list_all (\<lambda>kc. 0 \<le> call_GetNumConstraints sample_ncons (fst kc) (snd kc)) ?R"
    by (simp add: call_GetNumConstraints_def sample_ncons_def nf nr Ch3DOFContainer_GetNumConstraints_def)
  have fits: "(7::int) < 2 ^ 31"
    by simp
  have r0: "row_range sample_ncons (Fluid, Ch3DOFContainer_Setup sample_counts 0 sample_container) = {0 ..< 6}"
    by (simp add: row_range_def call_GetNumConstraints_def sample_ncons_def nf start_row_Setup)
  have r1: "row_range sample_ncons (Base, Ch3DOFContainer_Setup sample_counts 6 sample_container) = {}"
    by (simp add: row_range_def call_GetNumConstraints_def Ch3DOFContainer_GetNumConstraints_def)
  have r2: "row_range sample_ncons (Rigid, Ch3DOFContainer_Setup sample_counts 6 sample_container) = {6 ..< 7}"
    by (simp add: row_range_def call_GetNumConstraints_def sample_ncons_def nr start_row_Setup)
  from row_ranges_partition [OF run nonneg fits]
  have "\<forall>i j. i < length ?R \<and> j < length ?R \<and> i \<noteq> j \<longrightarrow>
          row_range sample_ncons (?R ! i) \<inter> row_range sample_ncons (?R ! j) = {}"
    by (rule conjunct1)
  from this [rule_format, of 0 2] have "row_range sample_ncons (Fluid, Ch3DOFContainer_Setup sample_counts 0 sample_container)
       \<inter> row_range sample_ncons (Rigid, Ch3DOFContainer_Setup sample_counts 6 sample_container) = {}"
    by simp
  with run r0 r1 r2 show ?thesis
    by blast
qed

subsection \<open>Projection\<close>




text \<open>
  C3. For a container of any kind and a multiplier vector that is already
  feasible (every contact block inside the friction cone of the container's
  friction coefficient and cohesion), \<^verbatim>\<open>Project\<close> returns the vector as it is,
  and so projecting the result again gives the same result as projecting once.
  For the base class and the MPM container this is the header's empty body; for
  the other four kinds it is the contract of the specification.
\<close>

theorem project_idempotent:
  assumes "list_all (feasible (contact_mu c) (contact_cohesion c)) gamma"
  shows "call_Project k gamma c = (gamma, c)
         \<and> call_Project k (fst (call_Project k gamma c)) (snd (call_Project k gamma c))
              = call_Project k gamma c"
proof -
  have "call_Project k gamma c = (gamma, c)"
  proof (cases "k = Base \<or> k = MPM")
    case True
    then show ?thesis
      by (rule call_Project_header)
  next
    case False
    then have "call_Project k gamma c = Project_spec gamma c"
      by (simp add: call_Project_spec)
    with assms show ?thesis
      by (simp add: Project_spec_def map_Cone_fixes)
  qed
  then show ?thesis
    by simp
qed

theorem project_idempotent_witness:
  "list_all (feasible (contact_mu sample_container) (contact_cohesion sample_container)) sample_feasible_gamma
   \<and> call_Project Rigid sample_feasible_gamma sample_container = (sample_feasible_gamma, sample_container)
   \<and> call_Project Rigid (fst (call_Project Rigid sample_feasible_gamma sample_container))
        (snd (call_Project Rigid sample_feasible_gamma sample_container))
       = call_Project Rigid sample_feasible_gamma sample_container"
proof -
  have s: "sqrt 25 = 5"
    by (rule real_sqrt_unique) simp_all
  have h: "list_all (feasible (contact_mu sample_container) (contact_cohesion sample_container)) sample_feasible_gamma"
    by (simp add: sample_feasible_gamma_def sample_container_def s)
  from project_idempotent [OF h, of Rigid] h show ?thesis
    by blast
qed

subsection \<open>Mass and inverse mass blocks\<close>

text \<open>
  C4. For a node of positive mass, the diagonal entries that \<^verbatim>\<open>ComputeMass\<close>
  writes for the node at a global offset and the entries that
  \<^verbatim>\<open>ComputeInvMass\<close> writes at the same offset hold the mass and its reciprocal:
  at each of the node's three rows the product of the two entries is 1. The
  reals are exact here, so no tolerance is needed.
\<close>

theorem mass_inverse:
  assumes "i < length masses" and "0 < masses ! i" and "k \<in> {0, 1, 2}"
  shows "ComputeMass_spec offset masses M (offset + 3 * int i + k) = Some (masses ! i)
         \<and> ComputeInvMass_spec offset masses M_inv (offset + 3 * int i + k) = Some (1 / masses ! i)
         \<and> the (ComputeMass_spec offset masses M (offset + 3 * int i + k))
             * the (ComputeInvMass_spec offset masses M_inv (offset + 3 * int i + k)) = 1"
proof -
  from assms(3) have k: "0 \<le> k" "k < 3"
    by auto
  have m: "ComputeMass_spec offset masses M (offset + 3 * int i + k) = Some (masses ! i)"
    unfolding ComputeMass_spec_def using assms(1) k by (rule fill_blocks_at)
  have "ComputeInvMass_spec offset masses M_inv (offset + 3 * int i + k) = Some (map (\<lambda>m. 1 / m) masses ! i)"
    unfolding ComputeInvMass_spec_def using assms(1) k by (simp add: fill_blocks_at)
  with assms(1) have inv: "ComputeInvMass_spec offset masses M_inv (offset + 3 * int i + k) = Some (1 / masses ! i)"
    by simp
  from assms(2) have "masses ! i * (1 / masses ! i) = 1"
    by simp
  with m inv show ?thesis
    by simp
qed

theorem mass_inverse_witness:
  "(1::nat) < length [2, 4 :: real] \<and> 0 < [2, 4 :: real] ! 1 \<and> (2::int) \<in> {0, 1, 2}
   \<and> ComputeMass_spec 6 [2, 4] Map.empty 11 = Some 4
   \<and> ComputeInvMass_spec 6 [2, 4] Map.empty 11 = Some (1 / 4)
   \<and> the (ComputeMass_spec 6 [2, 4] Map.empty 11) * the (ComputeInvMass_spec 6 [2, 4] Map.empty 11) = 1"
proof -
  have h1: "(1::nat) < length [2, 4 :: real]" by simp
  have h2: "0 < [2, 4 :: real] ! 1" by simp
  have h3: "(2::int) \<in> {0, 1, 2}" by simp
  from mass_inverse [OF h1 h2 h3, of 6 Map.empty Map.empty] h1 h2 h3
  show ?thesis
    by simp
qed

subsection \<open>Inherited methods\<close>

text \<open>
  C8. Each of the fifteen lifecycle methods \<^verbatim>\<open>Update\<close>, \<^verbatim>\<open>Initialize\<close>,
  \<^verbatim>\<open>ComputeInvMass\<close>, \<^verbatim>\<open>ComputeMass\<close>, \<^verbatim>\<open>GenerateSparsity\<close>, \<^verbatim>\<open>Build_D\<close>,
  \<^verbatim>\<open>Build_b\<close>, \<^verbatim>\<open>Build_E\<close>, \<^verbatim>\<open>PreSolve\<close>, \<^verbatim>\<open>ComputeDOF\<close>, \<^verbatim>\<open>InnerSolve\<close>,
  \<^verbatim>\<open>Project\<close>, \<^verbatim>\<open>UpdateRhs\<close>, \<^verbatim>\<open>UpdatePosition\<close> and \<^verbatim>\<open>PostSolve\<close>, called on a
  container whose class does not override it, returns with every member of the
  object (those of the subclass included) and the multiplier vector as they
  were, whatever the out-of-line bodies do; and the base-class
  \<^verbatim>\<open>GetNumConstraints\<close> and \<^verbatim>\<open>GetNumNonZeros\<close> return 0.
\<close>

theorem inherited_method_is_noop:
  assumes "m \<in> {Update t, Initialize, ComputeInvMass offset, ComputeMass offset,
                GenerateSparsity, Build_D, Build_b, Build_E, PreSolve, ComputeDOF,
                InnerSolve, Project, UpdateRhs, UpdatePosition t, PostSolve}"
    and "\<not> overrides k m"
  shows "call ext k m (gamma, c) = (gamma, c)
         \<and> Ch3DOFContainer_GetNumConstraints c = 0
         \<and> Ch3DOFContainer_GetNumNonZeros c = 0"
proof -
  from assms(1) obtain body where b: "Ch3DOFContainer_body m = Some body"
    and id: "body (gamma, c) = (gamma, c)"
    by (auto simp: Ch3DOFContainer_Update_def Ch3DOFContainer_Initialize_def
        Ch3DOFContainer_ComputeInvMass_def Ch3DOFContainer_ComputeMass_def
        Ch3DOFContainer_GenerateSparsity_def Ch3DOFContainer_Build_D_def
        Ch3DOFContainer_Build_b_def Ch3DOFContainer_Build_E_def
        Ch3DOFContainer_PreSolve_def Ch3DOFContainer_ComputeDOF_def
        Ch3DOFContainer_InnerSolve_def Ch3DOFContainer_Project_def
        Ch3DOFContainer_UpdateRhs_def Ch3DOFContainer_UpdatePosition_def
        Ch3DOFContainer_PostSolve_def)
  from assms(2) have "\<not> (k = MPM \<and> m = Project)"
    by auto
  with assms(2) b id have "call ext k m (gamma, c) = (gamma, c)"
    by (auto simp: call_def)
  then show ?thesis
    by (simp add: Ch3DOFContainer_GetNumConstraints_def Ch3DOFContainer_GetNumNonZeros_def)
qed

theorem inherited_method_is_noop_witness:
  "ComputeDOF \<in> {Update 0, Initialize, ComputeInvMass 0, ComputeMass 0,
                GenerateSparsity, Build_D, Build_b, Build_E, PreSolve, ComputeDOF,
                InnerSolve, Project, UpdateRhs, UpdatePosition 0, PostSolve}
   \<and> \<not> overrides Fluid ComputeDOF
   \<and> call sample_ext Fluid ComputeDOF (sample_gamma, sample_container) = (sample_gamma, sample_container)
   \<and> call sample_ext Fluid Build_D (sample_gamma, sample_container) \<noteq> (sample_gamma, sample_container)
   \<and> Ch3DOFContainer_GetNumConstraints sample_container = 0
   \<and> Ch3DOFContainer_GetNumNonZeros sample_container = 0"
proof -
  have h1: "ComputeDOF \<in> {Update 0, Initialize, ComputeInvMass 0, ComputeMass 0,
                GenerateSparsity, Build_D, Build_b, Build_E, PreSolve, ComputeDOF,
                InnerSolve, Project, UpdateRhs, UpdatePosition 0, PostSolve}"
    by simp
  have h2: "\<not> overrides Fluid ComputeDOF"
    by simp
  have "call sample_ext Fluid Build_D (sample_gamma, sample_container) \<noteq> (sample_gamma, sample_container)"
    by (simp add: call_def sample_ext_def sample_gamma_def)
  with h1 h2 inherited_method_is_noop [OF h1 h2, of sample_ext sample_gamma sample_container]
  show ?thesis
    by blast
qed

subsection \<open>Configuration values\<close>

text \<open>
  C9, as amended. Configuration is an assignment to public data members and
  nothing rejects a value: whatever friction coefficient and recovery speed
  are assigned, inside the valid ranges or not, they are the values in effect
  when \<^verbatim>\<open>Initialize\<close> runs. The base-class \<^verbatim>\<open>Initialize\<close> returns with them in
  place, and the \<^verbatim>\<open>Initialize\<close> of a subclass is entered with them.
\<close>

theorem configuration_not_validated:
  "contact_mu (configure mu speed c) = mu
   \<and> contact_recovery_speed (configure mu speed c) = speed
   \<and> call ext k Initialize (gamma, configure mu speed c) =
       (if k = Base then (gamma, configure mu speed c)
        else ext k Initialize (gamma, configure mu speed c))"
proof -
  have "contact_mu (configure mu speed c) = mu"
    and "contact_recovery_speed (configure mu speed c) = speed"
    by (simp_all add: configure_def)
  moreover have "call ext Base Initialize (gamma, configure mu speed c) = (gamma, configure mu speed c)"
    by (simp add: call_def Ch3DOFContainer_Initialize_def)
  moreover have "call ext k Initialize (gamma, configure mu speed c)
                   = ext k Initialize (gamma, configure mu speed c)" if "k \<noteq> Base"
    using that by (cases k) (simp_all add: call_def)
  ultimately show ?thesis
    by simp
qed

text \<open>
  The claim as first stated fails: with friction 2 and recovery speed \<open>- 1\<close>
  the configuration is invalid, and \<^verbatim>\<open>Initialize\<close> is entered and left with
  these values in the object.
\<close>

theorem invalid_configuration_counterexample:
  "\<not> valid_configuration (configure 2 (- 1) sample_container)
   \<and> call sample_ext Base Initialize (sample_gamma, configure 2 (- 1) sample_container)
       = (sample_gamma, configure 2 (- 1) sample_container)"
  by (simp add: valid_configuration_def configure_def call_def Ch3DOFContainer_Initialize_def)

subsection \<open>Contact queries\<close>

text \<open>
  C10. \<^verbatim>\<open>GetBodyContactForce\<close> and \<^verbatim>\<open>GetBodyContactTorque\<close>, called on a container
  whose class does not override them, return no defined value, for every body
  identifier: the base-class functions are declared to return a \<^verbatim>\<open>real3\<close> and
  have an empty body.
\<close>

theorem inherited_contact_query_undefined:
  assumes "\<not> overrides_query k"
  shows "call_GetBodyContactForce force k body_id c = None
         \<and> call_GetBodyContactTorque torque k body_id c = None"
  using assms
  by (simp add: call_GetBodyContactForce_def call_GetBodyContactTorque_def
      Ch3DOFContainer_GetBodyContactForce_def Ch3DOFContainer_GetBodyContactTorque_def)

theorem inherited_contact_query_undefined_witness:
  "\<not> overrides_query MPM
   \<and> call_GetBodyContactForce (\<lambda>k b c. (0, 0, 0)) MPM 3 sample_container = None
   \<and> call_GetBodyContactTorque (\<lambda>k b c. (0, 0, 0)) MPM 3 sample_container = None
   \<and> call_GetBodyContactForce (\<lambda>k b c. (0, 0, 0)) Rigid 3 sample_container = Some (0, 0, 0)"
proof -
  have h: "\<not> overrides_query MPM"
    by simp
  have "call_GetBodyContactForce (\<lambda>k b c. (0, 0, 0)) Rigid 3 sample_container = Some (0, 0, 0)"
    by (simp add: call_GetBodyContactForce_def)
  with h inherited_contact_query_undefined [OF h, of "\<lambda>k b c. (0, 0, 0)" 3 sample_container "\<lambda>k b c. (0, 0, 0)"]
  show ?thesis
    by blast
qed

end
